theory Spec2Isabelle
  imports Complex_Main
begin

section \<open>Python values shared by the three services\<close>

text \<open>
  A Python \<open>str\<close> is modelled as a \<open>string\<close> whose characters are the code points
  below 256; \<open>ord\<close> reads the code point. Exceptions are values: \<open>HTTPException\<close>
  carries the status code and the detail, the others carry \<open>str(e)\<close>. An exception
  other than \<open>HTTPException\<close> that leaves a handler is what the framework answers
  with status 500.
\<close>

datatype py_exn =
    HTTPException nat string
  | ValueError string
  | IndexError string
  | ZeroDivisionError string
  | ProviderError string

definition ord :: "char \<Rightarrow> nat" where
  "ord c = of_char c"

text \<open>\<open>sub in s\<close> on strings: \<open>sub\<close> occurs in \<open>s\<close> as a contiguous block.\<close>

fun startswith :: "string \<Rightarrow> string \<Rightarrow> bool" where
  "startswith s [] = True"
| "startswith [] (p # ps) = False"
| "startswith (c # cs) (p # ps) = (c = p \<and> startswith cs ps)"

fun str_in :: "string \<Rightarrow> string \<Rightarrow> bool" where
  "str_in sub [] = (sub = [])"
| "str_in sub (c # cs) = (startswith (c # cs) sub \<or> str_in sub cs)"

text \<open>\<open>str.lower()\<close> on code points below 256: A-Z and the upper-case Latin-1 letters.\<close>

definition lower_char :: "char \<Rightarrow> char" where
  "lower_char c =
     (let n = ord c in
      if (65 \<le> n \<and> n \<le> 90) \<or> (192 \<le> n \<and> n \<le> 222 \<and> n \<noteq> 215)
      then char_of (n + 32) else c)"

definition lower :: "string \<Rightarrow> string" where
  "lower s = map lower_char s"

text \<open>\<open>sep.join(parts)\<close>.\<close>

fun join :: "string \<Rightarrow> string list \<Rightarrow> string" where
  "join sep [] = []"
| "join sep [p] = p"
| "join sep (p # q # ps) = p @ sep @ join sep (q # ps)"

text \<open>\<open>str(n)\<close> of an integer, in decimal.\<close>

fun str_nat :: "nat \<Rightarrow> string" where
  "str_nat n =
     (if n < 10 then [''0123456789'' ! n]
      else str_nat (n div 10) @ [''0123456789'' ! (n mod 10)])"

definition str_int :: "int \<Rightarrow> string" where
  "str_int i = (if i < 0 then ''-'' @ str_nat (nat (- i)) else str_nat (nat i))"


section \<open>function\_caller\_api.py\<close>

subsection \<open>The regular expressions of \<open>re.match\<close>\<close>

text \<open>
  The character classes \<open>\d\<close>, \<open>\w\<close> and \<open>\s\<close> of a \<open>str\<close> pattern, on code
  points below 256.
\<close>

definition is_digit :: "char \<Rightarrow> bool" where
  "is_digit c = (48 \<le> ord c \<and> ord c \<le> 57)"

definition is_word :: "char \<Rightarrow> bool" where
  "is_word c =
     (let n = ord c in
      (48 \<le> n \<and> n \<le> 57) \<or> (65 \<le> n \<and> n \<le> 90) \<or> n = 95 \<or> (97 \<le> n \<and> n \<le> 122)
      \<or> n = 170 \<or> n = 178 \<or> n = 179 \<or> n = 181 \<or> n = 185 \<or> n = 186
      \<or> (188 \<le> n \<and> n \<le> 190) \<or> (192 \<le> n \<and> n \<le> 214) \<or> (216 \<le> n \<and> n \<le> 246)
      \<or> (248 \<le> n \<and> n \<le> 255))"

definition is_space :: "char \<Rightarrow> bool" where
  "is_space c =
     (let n = ord c in
      (9 \<le> n \<and> n \<le> 13) \<or> (28 \<le> n \<and> n \<le> 32) \<or> n = 133 \<or> n = 160)"

text \<open>
  \<open>re.match\<close> anchors the pattern at the start of the string and allows any text after
  the match. \<open>lit p s\<close> matches the literal text \<open>p\<close> at the head of \<open>s\<close> and
  returns what follows. \<open>rx_plus cls k [] s\<close> is the greedy group \<open>(cls+)\<close> followed
  by the rest of the pattern \<open>k\<close>: it takes as many characters of the class as there
  are, and gives one back at a time while the rest of the pattern fails.
\<close>

fun lit :: "string \<Rightarrow> string \<Rightarrow> string option" where
  "lit [] s = Some s"
| "lit (p # ps) [] = None"
| "lit (p # ps) (c # cs) = (if p = c then lit ps cs else None)"

fun rx_plus :: "(char \<Rightarrow> bool) \<Rightarrow> (string \<Rightarrow> string \<Rightarrow> 'a option) \<Rightarrow> string \<Rightarrow> string \<Rightarrow> 'a option" where
  "rx_plus cls k g [] = (if g = [] then None else k g [])"
| "rx_plus cls k g (c # cs) =
     (if cls c
      then (case rx_plus cls k (g @ [c]) cs of
              Some r \<Rightarrow> Some r
            | None \<Rightarrow> (if g = [] then None else k g (c # cs)))
      else (if g = [] then None else k g (c # cs)))"

text \<open>\<open>What is the status of ticket (\d+)\?\<close>\<close>

definition ticket_match :: "string \<Rightarrow> string option" where
  "ticket_match q =
     (case lit ''What is the status of ticket '' q of
        None \<Rightarrow> None
      | Some s \<Rightarrow>
          rx_plus is_digit
            (\<lambda>g r. case lit ''?'' r of None \<Rightarrow> None | Some _ \<Rightarrow> Some g) [] s)"

text \<open>\<open>Schedule a meeting on ([\d-]+) at ([\d:]+) in (Room \w+)\.\<close>\<close>

definition meeting_match :: "string \<Rightarrow> (string \<times> string \<times> string) option" where
  "meeting_match q =
     (case lit ''Schedule a meeting on '' q of
        None \<Rightarrow> None
      | Some s \<Rightarrow>
          rx_plus (\<lambda>c. is_digit c \<or> c = CHR ''-'')
            (\<lambda>date r. case lit '' at '' r of
               None \<Rightarrow> None
             | Some s2 \<Rightarrow>
                 rx_plus (\<lambda>c. is_digit c \<or> c = CHR '':'')
                   (\<lambda>time r2. case lit '' in Room '' r2 of
                      None \<Rightarrow> None
                    | Some s3 \<Rightarrow>
                        rx_plus is_word
                          (\<lambda>w r3. case lit ''.'' r3 of
                             None \<Rightarrow> None
                           | Some _ \<Rightarrow> Some (date, time, ''Room '' @ w)) [] s3) [] s2) [] s)"

text \<open>\<open>Show my expense balance for employee (\d+)\.\<close>\<close>

definition expense_match :: "string \<Rightarrow> string option" where
  "expense_match q =
     (case lit ''Show my expense balance for employee '' q of
        None \<Rightarrow> None
      | Some s \<Rightarrow>
          rx_plus is_digit
            (\<lambda>g r. case lit ''.'' r of None \<Rightarrow> None | Some _ \<Rightarrow> Some g) [] s)"

text \<open>\<open>Calculate performance bonus for employee (\d+) for (\d+)\.\<close>\<close>

definition bonus_match :: "string \<Rightarrow> (string \<times> string) option" where
  "bonus_match q =
     (case lit ''Calculate performance bonus for employee '' q of
        None \<Rightarrow> None
      | Some s \<Rightarrow>
          rx_plus is_digit
            (\<lambda>g1 r. case lit '' for '' r of
               None \<Rightarrow> None
             | Some s2 \<Rightarrow>
                 rx_plus is_digit
                   (\<lambda>g2 r2. case lit ''.'' r2 of
                      None \<Rightarrow> None
                    | Some _ \<Rightarrow> Some (g1, g2)) [] s2) [] s)"

text \<open>\<open>Report office issue (\d+) for the ([\w\s]+) department\.\<close>\<close>

definition issue_match :: "string \<Rightarrow> (string \<times> string) option" where
  "issue_match q =
     (case lit ''Report office issue '' q of
        None \<Rightarrow> None
      | Some s \<Rightarrow>
          rx_plus is_digit
            (\<lambda>g1 r. case lit '' for the '' r of
               None \<Rightarrow> None
             | Some s2 \<Rightarrow>
                 rx_plus (\<lambda>c. is_word c \<or> is_space c)
                   (\<lambda>g2 r2. case lit '' department.'' r2 of
                      None \<Rightarrow> None
                    | Some _ \<Rightarrow> Some (g1, g2)) [] s2) [] s)"

subsection \<open>\<open>int\<close> and \<open>json.dumps\<close>\<close>

text \<open>
  \<open>int(s)\<close> on a group matched by \<open>\d+\<close>. CPython refuses a decimal string of more
  than 4300 digits with a \<open>ValueError\<close>.
\<close>

definition py_int :: "string \<Rightarrow> py_exn + int" where
  "py_int s =
     (if 4300 < length s
      then Inl (ValueError ''Exceeds the limit (4300 digits) for integer string conversion'')
      else Inr (foldl (\<lambda>a c. 10 * a + int (ord c - 48)) 0 s))"

datatype json = JInt int | JStr string

text \<open>
  \<open>json.dumps\<close> with its defaults: \<open>ensure_ascii\<close> escapes every character outside
  the printable ASCII range, items are separated by \<open>", "\<close> and keys by \<open>": "\<close>.
\<close>

definition json_escape_char :: "char \<Rightarrow> string" where
  "json_escape_char c =
     (let n = ord c in
      if n = 34 then [CHR 0x5C, CHR 0x22]
      else if n = 92 then [CHR 0x5C, CHR 0x5C]
      else if n = 10 then CHR 0x5C # ''n''
      else if n = 13 then CHR 0x5C # ''r''
      else if n = 9 then CHR 0x5C # ''t''
      else if n = 12 then CHR 0x5C # ''f''
      else if n = 8 then CHR 0x5C # ''b''
      else if n < 32 \<or> 126 < n
      then CHR 0x5C # ''u00'' @ [''0123456789abcdef'' ! (n div 16), ''0123456789abcdef'' ! (n mod 16)]
      else [c])"

definition json_str :: "string \<Rightarrow> string" where
  "json_str s = [CHR 0x22] @ concat (map json_escape_char s) @ [CHR 0x22]"

fun json_value :: "json \<Rightarrow> string" where
  "json_value (JInt i) = str_int i"
| "json_value (JStr s) = json_str s"

definition json_dumps :: "(string \<times> json) list \<Rightarrow> string" where
  "json_dumps d = ''{'' @ join '', '' (map (\<lambda>(k, v). json_str k @ '': '' @ json_value v) d) @ ''}''"

subsection \<open>The endpoint\<close>

record FunctionCallResponse =
  name :: string
  arguments :: string

definition execute_function_call :: "string \<Rightarrow> py_exn + FunctionCallResponse" where
  "execute_function_call q =
     (case ticket_match q of
        Some g \<Rightarrow>
          (case py_int g of
             Inl e \<Rightarrow> Inl e
           | Inr ticket_id \<Rightarrow>
               Inr \<lparr>name = ''get_ticket_status'',
                    arguments = json_dumps [(''ticket_id'', JInt ticket_id)]\<rparr>)
      | None \<Rightarrow>
     (case meeting_match q of
        Some (date, time, room) \<Rightarrow>
          Inr \<lparr>name = ''schedule_meeting'',
               arguments = json_dumps [(''date'', JStr date), (''time'', JStr time),
                                       (''meeting_room'', JStr room)]\<rparr>
      | None \<Rightarrow>
     (case expense_match q of
        Some g \<Rightarrow>
          (case py_int g of
             Inl e \<Rightarrow> Inl e
           | Inr employee_id \<Rightarrow>
               Inr \<lparr>name = ''get_expense_balance'',
                    arguments = json_dumps [(''employee_id'', JInt employee_id)]\<rparr>)
      | None \<Rightarrow>
     (case bonus_match q of
        Some (g1, g2) \<Rightarrow>
          (case py_int g1 of
             Inl e \<Rightarrow> Inl e
           | Inr employee_id \<Rightarrow>
               (case py_int g2 of
                  Inl e \<Rightarrow> Inl e
                | Inr current_year \<Rightarrow>
                    Inr \<lparr>name = ''calculate_performance_bonus'',
                         arguments = json_dumps [(''employee_id'', JInt employee_id),
                                                 (''current_year'', JInt current_year)]\<rparr>))
      | None \<Rightarrow>
     (case issue_match q of
        Some (g1, department) \<Rightarrow>
          (case py_int g1 of
             Inl e \<Rightarrow> Inl e
           | Inr issue_code \<Rightarrow>
               Inr \<lparr>name = ''report_office_issue'',
                    arguments = json_dumps [(''issue_code'', JInt issue_code),
                                            (''department'', JStr department)]\<rparr>)
      | None \<Rightarrow>
          Inl (HTTPException 400 ''Query did not match any known function pattern.''))))))"


section \<open>similarity\_api.py\<close>

text \<open>
  Floating-point numbers are modelled as real numbers: rounding, overflow and underflow
  are not part of the model. The environment of the service is the value of the
  variable \<open>OPENAI_API_KEY\<close> and the remote embedding service, a function from the
  \<open>input\<close> list of \<open>client.embeddings.create\<close> to the embeddings of \<open>.data\<close>, in
  order, or to the exception the client raises. The state is the list of the calls of
  the embedding function made so far, each with the texts it was given.
\<close>

record sim_env =
  sim_api_key :: "string option"
  embeddings_create :: "string list \<Rightarrow> py_exn + real list list"

type_synonym embed_calls = "string list list"

text \<open>\<open>str(e)\<close>; for \<open>HTTPException\<close> it is the status code, a colon and the detail.\<close>

fun str_exn :: "py_exn \<Rightarrow> string" where
  "str_exn (HTTPException code detail) = str_nat code @ '': '' @ detail"
| "str_exn (ValueError m) = m"
| "str_exn (IndexError m) = m"
| "str_exn (ZeroDivisionError m) = m"
| "str_exn (ProviderError m) = m"

definition replace_newlines :: "string \<Rightarrow> string" where
  "replace_newlines text = map (\<lambda>c. if c = CHR 0x0A then CHR '' '' else c) text"

definition get_embedding :: "sim_env \<Rightarrow> string \<Rightarrow> embed_calls \<Rightarrow> (py_exn + real list) \<times> embed_calls" where
  "get_embedding env text calls =
     (let calls' = calls @ [[text]] in
      case sim_api_key env of
        None \<Rightarrow> (Inl (HTTPException 401 ''OpenAI API key is missing or invalid. Please set the OPENAI_API_KEY environment variable.''), calls')
      | Some k \<Rightarrow>
          if k = [] then (Inl (HTTPException 401 ''OpenAI API key is missing or invalid. Please set the OPENAI_API_KEY environment variable.''), calls')
          else (case embeddings_create env [replace_newlines text] of
                  Inl e \<Rightarrow> (Inl e, calls')
                | Inr [] \<Rightarrow> (Inl (IndexError ''list index out of range''), calls')
                | Inr (d # _) \<Rightarrow> (Inr d, calls')))"

text \<open>\<open>[get_embedding(doc) for doc in request.docs]\<close>: in order, up to the first exception.\<close>

fun embed_docs :: "sim_env \<Rightarrow> string list \<Rightarrow> embed_calls \<Rightarrow> (py_exn + real list list) \<times> embed_calls" where
  "embed_docs env [] calls = (Inr [], calls)"
| "embed_docs env (doc # docs) calls =
     (case get_embedding env doc calls of
        (Inl e, calls') \<Rightarrow> (Inl e, calls')
      | (Inr v, calls') \<Rightarrow>
          (case embed_docs env docs calls' of
             (Inl e, calls'') \<Rightarrow> (Inl e, calls'')
           | (Inr vs, calls'') \<Rightarrow> (Inr (v # vs), calls'')))"

definition np_dot :: "real list \<Rightarrow> real list \<Rightarrow> real" where
  "np_dot v1 v2 = sum_list (map (\<lambda>(x, y). x * y) (zip v1 v2))"

definition l2_norm :: "real list \<Rightarrow> real" where
  "l2_norm v = sqrt (sum_list (map (\<lambda>x. x\<^sup>2) v))"

text \<open>
  \<open>sklearn.metrics.pairwise.cosine_similarity([q], docs)[0]\<close>: the rows must form a
  matrix with at least one column and as many columns as \<open>q\<close> has, else it raises a
  \<open>ValueError\<close>; each row is divided by its norm, a norm of zero being replaced by
  one, and the result is the list of the dot products with the query row.
\<close>

definition sk_normalize :: "real list \<Rightarrow> real list" where
  "sk_normalize v = (let n = l2_norm v; n' = (if n = 0 then 1 else n) in map (\<lambda>x. x / n') v)"

definition sk_cosine_similarity :: "real list \<Rightarrow> real list list \<Rightarrow> py_exn + real list" where
  "sk_cosine_similarity q ds =
     (if q = [] \<or> (\<exists>d \<in> set ds. length d \<noteq> length q)
      then Inl (ValueError ''Incompatible dimension for X and Y matrices'')
      else Inr (map (\<lambda>d. np_dot (sk_normalize q) (sk_normalize d)) ds))"

text \<open>
  \<open>np.argsort(a)\<close>: the indices of \<open>a\<close> in ascending order of the values, an index
  with an equal value keeping its place (the insertion sort NumPy runs on a short
  array). \<open>[-3:]\<close> keeps the last three and \<open>[::-1]\<close> reverses.
\<close>

definition argsort :: "real list \<Rightarrow> nat list" where
  "argsort a = sort_key (\<lambda>i. a ! i) [0..<length a]"

definition top_3_indices :: "real list \<Rightarrow> nat list" where
  "top_3_indices similarities =
     rev (drop (length (argsort similarities) - 3) (argsort similarities))"

record SimilarityResponse =
  matches :: "string list"

text \<open>Lines 57 to 62: the embeddings and the similarities, inside the \<open>try\<close>.\<close>

definition compute_similarities :: "sim_env \<Rightarrow> string list \<Rightarrow> string \<Rightarrow> embed_calls \<Rightarrow> (py_exn + real list) \<times> embed_calls" where
  "compute_similarities env docs query calls =
     (case embed_docs env docs calls of
        (Inl e, calls') \<Rightarrow> (Inl e, calls')
      | (Inr doc_embeddings, calls') \<Rightarrow>
          (case get_embedding env query calls' of
             (Inl e, calls'') \<Rightarrow> (Inl e, calls'')
           | (Inr query_embedding, calls'') \<Rightarrow>
               (sk_cosine_similarity query_embedding doc_embeddings, calls'')))"

text \<open>The \<open>except Exception\<close> handler.\<close>

definition handle_exception :: "py_exn \<Rightarrow> py_exn" where
  "handle_exception e =
     (if str_in ''OPENAI_API_KEY'' (str_exn e)
      then HTTPException 401 ''OpenAI API key is missing or invalid. Please set the OPENAI_API_KEY environment variable.''
      else HTTPException 500 (str_exn e))"

definition get_similarity :: "sim_env \<Rightarrow> string list \<Rightarrow> string \<Rightarrow> embed_calls \<Rightarrow> (py_exn + SimilarityResponse) \<times> embed_calls" where
  "get_similarity env docs query calls =
     (if docs = [] \<or> query = []
      then (Inl (HTTPException 400 ''Docs and query cannot be empty.''), calls)
      else (case compute_similarities env docs query calls of
              (Inl e, calls') \<Rightarrow> (Inl (handle_exception e), calls')
            | (Inr similarities, calls') \<Rightarrow>
                (Inr \<lparr>matches = map (\<lambda>i. docs ! i) (top_3_indices similarities)\<rparr>, calls')))"


section \<open>rag\_api.py\<close>

record document =
  content :: string
  source :: string

definition KNOWLEDGE_BASE :: "document list" where
  "KNOWLEDGE_BASE =
     [\<lparr>content = ''The fat arrow syntax is affectionately called the fat arrow (because -> is a thin arrow and => is a fat arrow). The fat arrow is also called a lambda function.'',
       source = ''TypeScript Book - Arrow Functions''\<rparr>,
      \<lparr>content = ''The !! operator converts any value into an explicit boolean. The first ! converts to boolean and inverts the logic, the second ! inverts it back.'',
       source = ''TypeScript Book - Operators''\<rparr>,
      \<lparr>content = ''TypeScript has type inference which means you don't always need to annotate types. The compiler can infer types from usage.'',
       source = ''TypeScript Book - Type Inference''\<rparr>,
      \<lparr>content = ''Interfaces in TypeScript are used to define the structure of objects. They are a powerful way of defining contracts within your code.'',
       source = ''TypeScript Book - Interfaces''\<rparr>,
      \<lparr>content = ''The any type is the super type of all types in TypeScript. Using any effectively opts out of type checking.'',
       source = ''TypeScript Book - Types''\<rparr>]"

record SearchResponse =
  answer :: string
  sources :: "string option"

text \<open>
  The environment of the service: the variable \<open>OPENAI_API_KEY\<close>; the remote service
  behind \<open>httpx.post\<close>, from the \<open>input\<close> list to the list of the embeddings of the
  response or to the exception raised on the way; and, for the mock embeddings, the
  interpreter's \<open>hash\<close> and \<open>repr\<close> of a \<open>str\<close> and its random generator, where
  \<open>random_stream s k\<close> is the number that the call number \<open>k\<close> of \<open>random.random()\<close>
  returns after \<open>random.seed(s)\<close>.
\<close>

record rag_env =
  rag_api_key :: "string option"
  httpx_post :: "string list \<Rightarrow> py_exn + real list list"
  py_hash :: "string \<Rightarrow> int"
  py_repr :: "string \<Rightarrow> string"
  random_stream :: "nat \<Rightarrow> nat \<Rightarrow> real"

text \<open>\<open>str(texts)\<close> of a list of strings.\<close>

definition str_list :: "(string \<Rightarrow> string) \<Rightarrow> string list \<Rightarrow> string" where
  "str_list repr texts = ''['' @ join '', '' (map repr texts) @ '']''"

text \<open>\<open>random.uniform(a, b)\<close> is \<open>a + (b - a) * random.random()\<close>.\<close>

definition uniform :: "real \<Rightarrow> real \<Rightarrow> real \<Rightarrow> real" where
  "uniform a b r = a + (b - a) * r"

text \<open>
  The loop \<open>for _ in texts\<close> of the mock branch; \<open>k\<close> counts the numbers drawn so
  far. The division by a norm of zero raises \<open>ZeroDivisionError\<close>.
\<close>

fun mock_loop :: "(nat \<Rightarrow> real) \<Rightarrow> string list \<Rightarrow> nat \<Rightarrow> py_exn + real list list" where
  "mock_loop rs [] k = Inr []"
| "mock_loop rs (t # ts) k =
     (let embedding = map (\<lambda>i. uniform (- 1) 1 (rs (k + i))) [0..<1536];
          norm = sqrt (sum_list (map (\<lambda>x. x\<^sup>2) embedding))
      in if norm = 0 then Inl (ZeroDivisionError ''float division by zero'')
         else (case mock_loop rs ts (k + 1536) of
                 Inl e \<Rightarrow> Inl e
               | Inr embeddings \<Rightarrow> Inr (map (\<lambda>x. x / norm) embedding # embeddings)))"

definition mock_seed :: "rag_env \<Rightarrow> string list \<Rightarrow> nat" where
  "mock_seed env texts = nat (py_hash env (str_list (py_repr env) texts) mod 2 ^ 32)"

definition get_embeddings :: "rag_env \<Rightarrow> string list \<Rightarrow> string \<Rightarrow> embed_calls \<Rightarrow> (py_exn + real list list) \<times> embed_calls" where
  "get_embeddings env texts api_key calls =
     (let calls' = calls @ [texts] in
      if api_key = [] \<or> api_key = ''dummy-api-key''
      then (mock_loop (random_stream env (mock_seed env texts)) texts 0, calls')
      else (httpx_post env texts, calls'))"

text \<open>
  A NumPy float is a real number or NaN. \<open>cosine_similarity\<close>: \<open>np.dot\<close> raises a
  \<open>ValueError\<close> on vectors of different lengths; the division of zero by zero gives
  NaN and raises nothing.
\<close>

datatype np_float = NaN | Fin real

definition cosine_similarity :: "real list \<Rightarrow> real list \<Rightarrow> py_exn + np_float" where
  "cosine_similarity vec1 vec2 =
     (if length vec1 \<noteq> length vec2 then Inl (ValueError ''shapes not aligned'')
      else if l2_norm vec1 * l2_norm vec2 = 0 then Inr NaN
      else Inr (Fin (np_dot vec1 vec2 / (l2_norm vec1 * l2_norm vec2))))"

text \<open>
  The loop over \<open>enumerate(doc_embeddings)\<close>, from index \<open>i\<close> on;
  \<open>KNOWLEDGE_BASE[i]\<close> raises \<open>IndexError\<close> beyond the last document.
\<close>

fun similarities_loop :: "real list \<Rightarrow> nat \<Rightarrow> real list list \<Rightarrow> py_exn + (nat \<times> np_float \<times> document) list" where
  "similarities_loop query_embedding i [] = Inr []"
| "similarities_loop query_embedding i (doc_embedding # rest) =
     (case cosine_similarity query_embedding doc_embedding of
        Inl e \<Rightarrow> Inl e
      | Inr similarity \<Rightarrow>
          if length KNOWLEDGE_BASE \<le> i then Inl (IndexError ''list index out of range'')
          else (case similarities_loop query_embedding (Suc i) rest of
                  Inl e \<Rightarrow> Inl e
                | Inr similarities \<Rightarrow> Inr ((i, similarity, KNOWLEDGE_BASE ! i) # similarities)))"

text \<open>
  \<open>list.sort(key=..., reverse=True)\<close>: a stable sort by descending key, which compares
  keys with \<open><\<close> only. A comparison with NaN is false; on keys without NaN the
  result is the one of any stable sort, and with a NaN among the keys the order CPython
  leaves depends on the runs it finds, which this insertion sort does not follow.
\<close>

fun np_less :: "np_float \<Rightarrow> np_float \<Rightarrow> bool" where
  "np_less (Fin a) (Fin b) = (a < b)"
| "np_less _ _ = False"

fun insort_reverse :: "('a \<Rightarrow> np_float) \<Rightarrow> 'a \<Rightarrow> 'a list \<Rightarrow> 'a list" where
  "insort_reverse key x [] = [x]"
| "insort_reverse key x (y # ys) =
     (if np_less (key x) (key y) then y # insort_reverse key x ys else x # y # ys)"

definition sort_reverse :: "('a \<Rightarrow> np_float) \<Rightarrow> 'a list \<Rightarrow> 'a list" where
  "sort_reverse key xs = foldr (insort_reverse key) xs []"

text \<open>The three keyword rules of \<open>search\<close>, in the order of the \<open>if\<close>/\<open>elif\<close> chain.\<close>

definition rule_fat_arrow_specific :: "string \<Rightarrow> bool" where
  "rule_fat_arrow_specific q =
     (let query_lower = lower q in
      (str_in ''=>'' q \<or> str_in ''fat arrow'' query_lower)
      \<and> (str_in ''call'' query_lower \<or> str_in ''affectionately'' query_lower
         \<or> str_in ''syntax'' query_lower))"

definition rule_double_bang :: "string \<Rightarrow> bool" where
  "rule_double_bang q =
     (let query_lower = lower q in
      str_in ''!!'' q
      \<or> (str_in ''boolean'' query_lower
         \<and> (str_in ''convert'' query_lower \<or> str_in ''explicit'' query_lower)))"

definition rule_fat_arrow_any :: "string \<Rightarrow> bool" where
  "rule_fat_arrow_any q = (let query_lower = lower q in str_in ''=>'' q \<or> str_in ''fat arrow'' query_lower)"

definition search_response :: "document \<Rightarrow> SearchResponse" where
  "search_response best_match = \<lparr>answer = content best_match, sources = Some (source best_match)\<rparr>"

text \<open>Lines 108 to 124: the \<open>else\<close> branch, the search by embeddings.\<close>

definition embedding_search :: "rag_env \<Rightarrow> string \<Rightarrow> string \<Rightarrow> embed_calls \<Rightarrow> (py_exn + document) \<times> embed_calls" where
  "embedding_search env q api_key calls =
     (let all_texts = q # map content KNOWLEDGE_BASE in
      case get_embeddings env all_texts api_key calls of
        (Inl e, calls') \<Rightarrow> (Inl e, calls')
      | (Inr [], calls') \<Rightarrow> (Inl (IndexError ''list index out of range''), calls')
      | (Inr (query_embedding # doc_embeddings), calls') \<Rightarrow>
          (case similarities_loop query_embedding 0 doc_embeddings of
             Inl e \<Rightarrow> (Inl e, calls')
           | Inr similarities \<Rightarrow>
               (case sort_reverse (\<lambda>x. fst (snd x)) similarities of
                  [] \<Rightarrow> (Inl (IndexError ''list index out of range''), calls')
                | (i, similarity, doc) # _ \<Rightarrow> (Inr doc, calls'))))"

definition search :: "rag_env \<Rightarrow> string \<Rightarrow> embed_calls \<Rightarrow> (py_exn + SearchResponse) \<times> embed_calls" where
  "search env q calls =
     (let api_key = (case rag_api_key env of None \<Rightarrow> ''dummy-api-key'' | Some k \<Rightarrow> k) in
      if rule_fat_arrow_specific q then (Inr (search_response (KNOWLEDGE_BASE ! 0)), calls)
      else if rule_double_bang q then (Inr (search_response (KNOWLEDGE_BASE ! 1)), calls)
      else if rule_fat_arrow_any q then (Inr (search_response (KNOWLEDGE_BASE ! 0)), calls)
      else (case embedding_search env q api_key calls of
              (Inl e, calls') \<Rightarrow> (Inl e, calls')
            | (Inr best_match, calls') \<Rightarrow> (Inr (search_response best_match), calls')))"


section \<open>Example environments\<close>

text \<open>
  Concrete environments on which the services are evaluated. In both, the remote
  service answers every text with a unit vector chosen by the text: \<open>north\<close> and
  \<open>west\<close> have their own direction and every other text points east. The mock
  environment has no key; its generator returns 3/4 for the first 1536 calls after any
  seed and 1/4 from then on.
\<close>

definition compass :: "string list \<Rightarrow> py_exn + real list list" where
  "compass texts =
     Inr (map (\<lambda>t. if t = ''north'' then [0, 1] else if t = ''west'' then [- 1, 0] else [1, 0]) texts)"

definition compass_env :: sim_env where
  "compass_env = \<lparr>sim_api_key = Some ''sk-test'', embeddings_create = compass\<rparr>"

definition compass_rag_env :: rag_env where
  "compass_rag_env =
     \<lparr>rag_api_key = Some ''sk-test'', httpx_post = compass,
      py_hash = (\<lambda>s. int (length s)),
      py_repr = (\<lambda>s. [CHR 0x27] @ s @ [CHR 0x27]),
      random_stream = (\<lambda>seed k. if k < 1536 then 3 / 4 else 1 / 4)\<rparr>"

definition mock_rag_env :: rag_env where
  "mock_rag_env = compass_rag_env\<lparr>rag_api_key := None\<rparr>"


section \<open>Properties of the function-call resolver\<close>

lemma execute_function_call_400_only_without_match:
  assumes "execute_function_call q = Inl (HTTPException 400 d)"
  shows "ticket_match q = None \<and> meeting_match q = None \<and> expense_match q = None
         \<and> bonus_match q = None \<and> issue_match q = None"
  using assms
  by (auto simp: execute_function_call_def py_int_def
           split: option.splits sum.splits prod.splits if_splits)

text \<open>
  C8. A query that none of the five templates matches is answered with the
  \<open>HTTPException\<close> of status 400, "Query did not match any known function pattern.":
  a client error, not an unhandled exception and not a \<open>FunctionCallResponse\<close>.
\<close>

theorem no_template_is_client_error:
  assumes "ticket_match q = None" and "meeting_match q = None" and "expense_match q = None"
    and "bonus_match q = None" and "issue_match q = None"
  shows "execute_function_call q =
           Inl (HTTPException 400 ''Query did not match any known function pattern.'')"
  using assms by (simp add: execute_function_call_def)

theorem no_template_is_client_error_witness:
  "ticket_match ''What is the status of ticket abc?'' = None
   \<and> meeting_match ''What is the status of ticket abc?'' = None
   \<and> expense_match ''What is the status of ticket abc?'' = None
   \<and> bonus_match ''What is the status of ticket abc?'' = None
   \<and> issue_match ''What is the status of ticket abc?'' = None
   \<and> execute_function_call ''What is the status of ticket abc?'' =
         Inl (HTTPException 400 ''Query did not match any known function pattern.'')"
proof -
  have t: "ticket_match ''What is the status of ticket abc?'' = None" by code_simp
  have m: "meeting_match ''What is the status of ticket abc?'' = None" by code_simp
  have e: "expense_match ''What is the status of ticket abc?'' = None" by code_simp
  have b: "bonus_match ''What is the status of ticket abc?'' = None" by code_simp
  have i: "issue_match ''What is the status of ticket abc?'' = None" by code_simp
  show ?thesis
    using t m e b i no_template_is_client_error [OF t m e b i] by simp
qed

text \<open>
  C9. The query "What is the status of ticket 482?" is resolved by the first template
  to the response named \<open>get_ticket_status\<close> whose arguments are the JSON text of
  the dictionary with the one key \<open>ticket_id\<close> and the integer 482 (a JSON number,
  not a JSON string).
\<close>

theorem ticket_482_resolution:
  \<open>ticket_match ''What is the status of ticket 482?'' = Some ''482''
   \<and> py_int ''482'' = Inr 482
   \<and> json_dumps [(''ticket_id'', JInt 482)] = ''{"ticket_id": 482}''
   \<and> execute_function_call ''What is the status of ticket 482?'' =
        Inr \<lparr>name = ''get_ticket_status'', arguments = ''{"ticket_id": 482}''\<rparr>\<close>
  by code_simp


section \<open>Lemmas on the similarity service\<close>

lemma set_argsort: "set (argsort a) = {0..<length a}"
  by (simp add: argsort_def)

lemma distinct_argsort: "distinct (argsort a)"
  by (simp add: argsort_def)

lemma length_argsort: "length (argsort a) = length a"
  by (simp add: argsort_def)

lemma sorted_argsort: "sorted (map (\<lambda>i. a ! i) (argsort a))"
  by (simp add: argsort_def)

lemma length_top_3_indices: "length (top_3_indices a) = min 3 (length a)"
  by (simp add: top_3_indices_def length_argsort)

lemma distinct_top_3_indices: "distinct (top_3_indices a)"
  by (simp add: top_3_indices_def distinct_argsort)

lemma set_top_3_indices: "set (top_3_indices a) \<subseteq> {0..<length a}"
  using set_drop_subset [of "length (argsort a) - 3" "argsort a"]
  by (simp add: top_3_indices_def set_argsort)

lemma sorted_top_3_indices:
  "sorted_wrt (\<lambda>i j. a ! j \<le> a ! i) (top_3_indices a)"
proof -
  have "sorted (map (\<lambda>i. a ! i) (drop (length (argsort a) - 3) (argsort a)))"
    using sorted_argsort [of a] by (simp add: drop_map [symmetric])
  then have "sorted_wrt (\<lambda>i j. a ! i \<le> a ! j) (drop (length (argsort a) - 3) (argsort a))"
    by (simp add: sorted_map)
  then show ?thesis
    by (simp add: top_3_indices_def sorted_wrt_rev)
qed

lemma get_embedding_calls:
  "get_embedding env text calls = (r, calls') \<Longrightarrow> calls' = calls @ [[text]]"
  by (auto simp: get_embedding_def Let_def split: option.splits if_splits sum.splits list.splits)

lemma embed_docs_Inr:
  "embed_docs env docs calls = (Inr vs, calls') \<Longrightarrow>
     length vs = length docs \<and> calls' = calls @ map (\<lambda>d. [d]) docs"
proof (induction docs arbitrary: calls vs calls')
  case Nil
  then show ?case by simp
next
  case (Cons doc docs)
  from Cons.prems obtain v c1 vs' where
    g: "get_embedding env doc calls = (Inr v, c1)" and
    r: "embed_docs env docs c1 = (Inr vs', calls')" and
    v: "vs = v # vs'"
    by (auto split: prod.splits sum.splits)
  from get_embedding_calls [OF g] have c1: "c1 = calls @ [[doc]]" .
  from Cons.IH [OF r] show ?case by (simp add: v c1)
qed

lemma sk_cosine_similarity_length:
  "sk_cosine_similarity q ds = Inr sims \<Longrightarrow> length sims = length ds"
  by (auto simp: sk_cosine_similarity_def split: if_splits)

lemma compute_similarities_Inr:
  assumes "compute_similarities env docs query calls = (Inr sims, calls')"
  shows "length sims = length docs \<and> calls' = calls @ map (\<lambda>d. [d]) docs @ [[query]]"
proof -
  from assms obtain des c1 qe where
    e: "embed_docs env docs calls = (Inr des, c1)" and
    g: "get_embedding env query c1 = (Inr qe, calls')" and
    s: "sk_cosine_similarity qe des = Inr sims"
    by (auto simp: compute_similarities_def split: prod.splits sum.splits)
  from embed_docs_Inr [OF e] get_embedding_calls [OF g] sk_cosine_similarity_length [OF s]
  show ?thesis by simp
qed

lemma get_similarity_Inr:
  assumes "get_similarity env docs query calls = (Inr resp, calls')"
  shows "\<exists>sims. compute_similarities env docs query calls = (Inr sims, calls')
           \<and> resp = \<lparr>matches = map (\<lambda>i. docs ! i) (top_3_indices sims)\<rparr>"
  using assms
  by (auto simp: get_similarity_def split: if_splits prod.splits sum.splits)






section \<open>Lemmas on the knowledge-base search\<close>


lemma set_insort_reverse: "set (insort_reverse key x ys) = insert x (set ys)"
  by (induction ys) auto

lemma set_sort_reverse: "set (sort_reverse key xs) = set xs"
  by (induction xs) (auto simp: sort_reverse_def set_insort_reverse)

lemma length_insort_reverse: "length (insort_reverse key x ys) = Suc (length ys)"
  by (induction ys) auto

lemma length_sort_reverse: "length (sort_reverse key xs) = length xs"
  by (induction xs) (auto simp: sort_reverse_def length_insort_reverse)





lemma similarities_loop_Inr:
  "similarities_loop qe i des = Inr sims \<Longrightarrow>
     length sims = length des
     \<and> sorted_wrt (\<lambda>x y. fst x < fst y) sims
     \<and> (\<forall>x \<in> set sims. i \<le> fst x \<and> fst x < length KNOWLEDGE_BASE
            \<and> snd (snd x) = KNOWLEDGE_BASE ! fst x)"
proof (induction des arbitrary: i sims)
  case Nil
  then show ?case by simp
next
  case (Cons d des)
  from Cons.prems obtain s rest where
    i: "i < length KNOWLEDGE_BASE" and
    r: "similarities_loop qe (Suc i) des = Inr rest" and
    s: "sims = (i, s, KNOWLEDGE_BASE ! i) # rest"
    by (auto split: sum.splits if_splits)
  from Cons.IH [OF r] i show ?case by (auto simp: s)
qed

lemma length_KNOWLEDGE_BASE: "length KNOWLEDGE_BASE = 5"
  by (simp add: KNOWLEDGE_BASE_def)

lemma get_embeddings_calls:
  "get_embeddings env texts api_key calls = (r, calls') \<Longrightarrow> calls' = calls @ [texts]"
  by (auto simp: get_embeddings_def Let_def split: if_splits)

lemma embedding_search_calls:
  "embedding_search env q api_key calls = (r, calls') \<Longrightarrow>
     calls' = calls @ [q # map content KNOWLEDGE_BASE]"
  by (auto simp: embedding_search_def Let_def dest!: get_embeddings_calls
           split: prod.splits sum.splits list.splits)

lemma embedding_search_Inr:
  assumes "embedding_search env q api_key calls = (Inr doc, calls')"
  shows "doc \<in> set KNOWLEDGE_BASE"
proof -
  from assms obtain qe des sims i s rest where
    l: "similarities_loop qe 0 des = Inr sims" and
    h: "sort_reverse (\<lambda>x. fst (snd x)) sims = (i, s, doc) # rest"
    by (auto simp: embedding_search_def Let_def split: prod.splits sum.splits list.splits)
  have "(i, s, doc) \<in> set (sort_reverse (\<lambda>x. fst (snd x)) sims)"
    by (simp add: h)
  then have m: "(i, s, doc) \<in> set sims" by (simp add: set_sort_reverse)
  from similarities_loop_Inr [OF l] m
  have "i < length KNOWLEDGE_BASE" "doc = KNOWLEDGE_BASE ! i" by auto
  then show ?thesis by simp
qed

lemma search_rule_hit:
  assumes "rule_fat_arrow_specific q \<or> rule_double_bang q \<or> rule_fat_arrow_any q"
  shows "search env q calls =
           (Inr (search_response
                  (if rule_fat_arrow_specific q then KNOWLEDGE_BASE ! 0
                   else if rule_double_bang q then KNOWLEDGE_BASE ! 1
                   else KNOWLEDGE_BASE ! 0)), calls)"
  using assms by (auto simp: search_def)

lemma search_rule_miss_calls:
  assumes "\<not> rule_fat_arrow_specific q" "\<not> rule_double_bang q" "\<not> rule_fat_arrow_any q"
  shows "snd (search env q calls) = calls @ [q # map content KNOWLEDGE_BASE]"
  using assms
  by (auto simp: search_def Let_def dest!: embedding_search_calls split: prod.splits sum.splits)

lemma search_Inr:
  assumes "search env q calls = (Inr resp, calls')"
  shows "\<exists>doc \<in> set KNOWLEDGE_BASE. resp = search_response doc"
proof -
  have k0: "KNOWLEDGE_BASE ! 0 \<in> set KNOWLEDGE_BASE" and k1: "KNOWLEDGE_BASE ! 1 \<in> set KNOWLEDGE_BASE"
    by (simp_all add: length_KNOWLEDGE_BASE)
  show ?thesis
  proof (cases "rule_fat_arrow_specific q \<or> rule_double_bang q \<or> rule_fat_arrow_any q")
    case True
    from search_rule_hit [OF True, of env calls] assms k0 k1 show ?thesis
      by (auto split: if_splits)
  next
    case False
    with assms obtain doc k where
      "embedding_search env q k calls = (Inr doc, calls')" "resp = search_response doc"
      by (auto simp: search_def Let_def split: prod.splits sum.splits)
    with embedding_search_Inr show ?thesis by blast
  qed
qed

lemma sum_squares_zero_iff: "sum_list (map (\<lambda>x. x\<^sup>2) v) = 0 \<longleftrightarrow> (\<forall>x \<in> set v. x = (0::real))"
proof (induction v)
  case Nil
  then show ?case by simp
next
  case (Cons a v)
  have nn: "0 \<le> sum_list (map (\<lambda>x. x\<^sup>2) v)"
    by (rule sum_list_nonneg) auto
  have "a\<^sup>2 + sum_list (map (\<lambda>x. x\<^sup>2) v) = 0 \<longleftrightarrow> a\<^sup>2 = 0 \<and> sum_list (map (\<lambda>x. x\<^sup>2) v) = 0"
    using nn by (intro add_nonneg_eq_0_iff) auto
  with Cons.IH show ?case by simp
qed



lemma unit_after_division:
  fixes v :: "real list"
  assumes "sqrt (sum_list (map (\<lambda>x. x\<^sup>2) v)) \<noteq> 0"
  shows "sum_list (map (\<lambda>x. x\<^sup>2) (map (\<lambda>x. x / sqrt (sum_list (map (\<lambda>x. x\<^sup>2) v))) v)) = 1"
proof -
  define s where "s = sum_list (map (\<lambda>x. x\<^sup>2) v)"
  have nn: "0 \<le> s" unfolding s_def by (rule sum_list_nonneg) auto
  from assms have s0: "s \<noteq> 0" by (auto simp: s_def)
  have "sum_list (map (\<lambda>x. x\<^sup>2) (map (\<lambda>x. x / sqrt s) v)) = sum_list (map (\<lambda>x. x\<^sup>2 / s) v)"
    using nn by (simp add: comp_def power_divide)
  also have "\<dots> = sum_list (map (\<lambda>x. x\<^sup>2) v) / s"
    by (induction v) (simp_all add: add_divide_distrib)
  also have "\<dots> = 1" using s0 by (simp add: s_def)
  finally show ?thesis by (simp add: s_def)
qed

lemma mock_loop_Inr:
  "mock_loop rs texts k = Inr vs \<Longrightarrow>
     length vs = length texts
     \<and> (\<forall>v \<in> set vs. length v = 1536 \<and> sum_list (map (\<lambda>x. x\<^sup>2) v) = 1)"
proof (induction texts arbitrary: k vs)
  case Nil
  then show ?case by simp
next
  case (Cons t ts)
  define e where "e = map (\<lambda>i. uniform (- 1) 1 (rs (k + i))) [0..<1536]"
  from Cons.prems obtain rest where
    n: "sqrt (sum_list (map (\<lambda>x. x\<^sup>2) e)) \<noteq> 0" and
    r: "mock_loop rs ts (k + 1536) = Inr rest" and
    v: "vs = map (\<lambda>x. x / sqrt (sum_list (map (\<lambda>x. x\<^sup>2) e))) e # rest"
    unfolding mock_loop.simps Let_def e_def [symmetric]
    by (auto split: if_splits sum.splits)
  have len: "length e = 1536" unfolding e_def by (simp only: length_map length_upt diff_zero)
  from Cons.IH [OF r] unit_after_division [OF n] len show ?case
    unfolding v by simp
qed

lemma mock_loop_ignores_texts:
  "length texts = length texts' \<Longrightarrow> mock_loop rs texts k = mock_loop rs texts' k"
proof (induction texts arbitrary: texts' k)
  case Nil
  then show ?case by simp
next
  case (Cons t ts)
  then obtain t' ts' where t: "texts' = t' # ts'" and l: "length ts = length ts'"
    by (cases texts') auto
  have "mock_loop rs ts (k + 1536) = mock_loop rs ts' (k + 1536)" by (rule Cons.IH [OF l])
  then show ?case unfolding t by (simp only: mock_loop.simps)
qed

lemma uniform_zero_iff: "uniform (- 1) 1 r = 0 \<longleftrightarrow> r = 1 / 2"
  by (auto simp: uniform_def)

lemma mock_loop_returns:
  assumes "\<forall>n. rs n \<noteq> 1 / 2"
  shows "\<exists>vs. mock_loop rs texts k = Inr vs"
proof (induction texts arbitrary: k)
  case Nil
  then show ?case by simp
next
  case (Cons t ts)
  define e where "e = map (\<lambda>i. uniform (- 1) 1 (rs (k + i))) [0..<1536]"
  have "length e = 1536" unfolding e_def by (simp only: length_map length_upt diff_zero)
  then have "e ! 0 \<in> set e" by (intro nth_mem) simp
  moreover have "\<forall>x \<in> set e. x \<noteq> 0"
    using assms unfolding e_def by (auto simp: uniform_zero_iff)
  ultimately have "\<not> (\<forall>x \<in> set e. x = 0)" by blast
  then have n: "sqrt (sum_list (map (\<lambda>x. x\<^sup>2) e)) \<noteq> 0"
    by (simp add: sum_squares_zero_iff)
  from Cons.IH [of "k + 1536"] obtain rest where "mock_loop rs ts (k + 1536) = Inr rest" by blast
  with n show ?case
    unfolding mock_loop.simps Let_def e_def [symmetric] by simp
qed

lemma map_upt_constant:
  "\<forall>i<n. f i = c \<Longrightarrow> map f [0..<n] = replicate n c"
  by (induction n) (simp_all add: replicate_append_same)

lemma mock_loop_constant_block:
  assumes "\<forall>i<1536. rs (k + i) = c" and "c \<noteq> 1 / 2"
  shows "mock_loop rs (t # ts) k =
           (case mock_loop rs ts (k + 1536) of
              Inl e \<Rightarrow> Inl e
            | Inr es \<Rightarrow> Inr (replicate 1536 (uniform (- 1) 1 c / sqrt (1536 * (uniform (- 1) 1 c)\<^sup>2)) # es))"
proof -
  define n :: nat where "n = 1536"
  define u where "u = uniform (- 1) 1 c"
  have e: "map (\<lambda>i. uniform (- 1) 1 (rs (k + i))) [0..<n] = replicate n u"
    using assms(1) unfolding n_def [symmetric] u_def
    by (intro map_upt_constant) simp
  have s: "sum_list (map (\<lambda>x. x\<^sup>2) (replicate n u)) = real n * u\<^sup>2"
    by (simp add: sum_list_replicate)
  have u0: "u \<noteq> 0" using assms(2) by (simp add: u_def uniform_zero_iff)
  have n0: "sqrt (real n * u\<^sup>2) \<noteq> 0" using u0 by (simp add: n_def)
  have rn: "real n = 1536" by (simp add: n_def)
  show ?thesis
    unfolding mock_loop.simps Let_def n_def [symmetric] u_def [symmetric] e s
    using n0 by (simp add: rn split: sum.splits)
qed


section \<open>Properties of the similarity service\<close>

lemma compass_env_run:
  "get_similarity compass_env [''east'', ''north'', ''west'', ''east again''] ''query'' [] =
     (Inr \<lparr>matches = [''east again'', ''east'', ''north'']\<rparr>,
      [[''east''], [''north''], [''west''], [''east again''], [''query'']])"
  by (simp add: get_similarity_def compass_env_def compass_def compute_similarities_def
      get_embedding_def sk_cosine_similarity_def top_3_indices_def argsort_def
      sk_normalize_def l2_norm_def np_dot_def replace_newlines_def)

lemma compass_env_similarities:
  "compute_similarities compass_env [''east'', ''north'', ''west'', ''east again''] ''query'' [] =
     (Inr [1, 0, - 1, 1],
      [[''east''], [''north''], [''west''], [''east again''], [''query'']])"
  by (simp add: compass_env_def compass_def compute_similarities_def
      get_embedding_def sk_cosine_similarity_def 
      sk_normalize_def l2_norm_def np_dot_def replace_newlines_def)

text \<open>
  C7. With an empty list of documents, \<open>get_similarity\<close> raises the \<open>HTTPException\<close>
  of status 400, "Docs and query cannot be empty.", whatever the query and the
  environment, before any embedding is requested; it returns no response.
\<close>

theorem empty_corpus_is_client_error:
  "get_similarity env [] query calls =
     (Inl (HTTPException 400 ''Docs and query cannot be empty.''), calls)"
  by (simp add: get_similarity_def)

text \<open>
  C6. When \<open>get_similarity\<close> returns a response, the similarities were computed, one
  for each document, and the matches are the documents at the indices
  \<open>top_3_indices\<close> of the similarities: there are \<open>min 3 (length docs)\<close> of them, no
  index occurs twice, every index is one of the corpus, and the similarities along the
  list never increase.
\<close>

theorem top_3_ranked_list:
  assumes "get_similarity env docs query calls = (Inr resp, calls')"
  shows "\<exists>similarities.
           compute_similarities env docs query calls = (Inr similarities, calls')
           \<and> length similarities = length docs
           \<and> matches resp = map (\<lambda>i. docs ! i) (top_3_indices similarities)
           \<and> length (matches resp) = min 3 (length docs)
           \<and> distinct (top_3_indices similarities)
           \<and> (\<forall>i \<in> set (top_3_indices similarities). i < length docs)
           \<and> sorted_wrt (\<lambda>i j. similarities ! j \<le> similarities ! i) (top_3_indices similarities)"
proof -
  from get_similarity_Inr [OF assms] obtain sims where
    c: "compute_similarities env docs query calls = (Inr sims, calls')" and
    r: "resp = \<lparr>matches = map (\<lambda>i. docs ! i) (top_3_indices sims)\<rparr>"
    by blast
  from compute_similarities_Inr [OF c] have len: "length sims = length docs" by simp
  have in_range: "\<forall>i \<in> set (top_3_indices sims). i < length docs"
    using set_top_3_indices [of sims] len by auto
  show ?thesis
    using c r len in_range length_top_3_indices [of sims] distinct_top_3_indices [of sims]
      sorted_top_3_indices [of sims]
    by auto
qed

theorem top_3_ranked_list_witness:
  "get_similarity compass_env [''east'', ''north'', ''west'', ''east again''] ''query'' [] =
     (Inr \<lparr>matches = [''east again'', ''east'', ''north'']\<rparr>,
      [[''east''], [''north''], [''west''], [''east again''], [''query'']])
   \<and> compute_similarities compass_env [''east'', ''north'', ''west'', ''east again''] ''query'' [] =
     (Inr [1, 0, - 1, 1], [[''east''], [''north''], [''west''], [''east again''], [''query'']])
   \<and> top_3_indices [1, 0, - 1, 1] = [3, 0, 1]
   \<and> length (matches \<lparr>matches = [''east again'', ''east'', ''north'']\<rparr>) = min 3 (length [''east'', ''north'', ''west'', ''east again''])
   \<and> sorted_wrt (\<lambda>i j. [1, 0, - 1, 1 :: real] ! j \<le> [1, 0, - 1, 1] ! i) (top_3_indices [1, 0, - 1, 1])"
proof -
  have t: "top_3_indices [1, 0, - 1, 1] = [3, 0, 1]"
    by (simp add: top_3_indices_def argsort_def)
  show ?thesis
    using top_3_ranked_list [OF compass_env_run]
    by (simp add: compass_env_run compass_env_similarities t)
qed


section \<open>Evaluations on the example environments\<close>

lemma compass_rag_env_miss:
  "\<not> rule_fat_arrow_specific ''hello''" "\<not> rule_double_bang ''hello''" "\<not> rule_fat_arrow_any ''hello''"
  by code_simp+

lemma compass_rag_env_run:
  "search compass_rag_env ''hello'' [] =
     (Inr (search_response (KNOWLEDGE_BASE ! 0)), [''hello'' # map content KNOWLEDGE_BASE])"
  using compass_rag_env_miss
  by (simp add: search_def embedding_search_def get_embeddings_def compass_rag_env_def
      compass_def KNOWLEDGE_BASE_def cosine_similarity_def l2_norm_def np_dot_def
      sort_reverse_def)





lemma mock_rag_env_fields:
  "rag_api_key mock_rag_env = None"
  "random_stream mock_rag_env = (\<lambda>seed k. if k < 1536 then 3 / 4 else 1 / 4)"
  "py_hash mock_rag_env = (\<lambda>s. int (length s))"
  "py_repr mock_rag_env = (\<lambda>s. [CHR 0x27] @ s @ [CHR 0x27])"
  by (simp_all add: mock_rag_env_def compass_rag_env_def)

lemma mock_rag_env_batch:
  "mock_loop (\<lambda>k. if k < 1536 then 3 / 4 else 1 / 4) [t1, t2] 0 =
     Inr [replicate 1536 ((1 / 2) / sqrt 384), replicate 1536 ((- 1 / 2) / sqrt 384)]"
proof -
  let ?rs = "\<lambda>k :: nat. if k < 1536 then 3 / 4 else 1 / 4 :: real"
  have b0: "mock_loop ?rs [t1, t2] 0 =
      (case mock_loop ?rs [t2] (0 + 1536) of Inl e \<Rightarrow> Inl e
       | Inr es \<Rightarrow> Inr (replicate 1536 (uniform (- 1) 1 (3 / 4) / sqrt (1536 * (uniform (- 1) 1 (3 / 4))\<^sup>2)) # es))"
    by (rule mock_loop_constant_block) simp_all
  have b1: "mock_loop ?rs [t2] (0 + 1536) =
      (case mock_loop ?rs [] (0 + 1536 + 1536) of Inl e \<Rightarrow> Inl e
       | Inr es \<Rightarrow> Inr (replicate 1536 (uniform (- 1) 1 (1 / 4) / sqrt (1536 * (uniform (- 1) 1 (1 / 4))\<^sup>2)) # es))"
    by (rule mock_loop_constant_block) simp_all
  have u: "uniform (- 1) 1 (3 / 4) = 1 / 2" "uniform (- 1) 1 (1 / 4) = - 1 / 2"
    by (simp_all add: uniform_def)
  have p: "(1536 :: real) * (1 / 2)\<^sup>2 = 384" "(1536 :: real) * (- 1 / 2)\<^sup>2 = 384"
    by (simp_all add: power2_eq_square)
  show ?thesis
    unfolding b0 b1 u p by (simp only: mock_loop.simps sum.case)
qed

lemma mock_rag_env_run:
  "fst (get_embeddings mock_rag_env [t1, t2] ''dummy-api-key'' calls) =
     Inr [replicate 1536 ((1 / 2) / sqrt 384), replicate 1536 ((- 1 / 2) / sqrt 384)]"
  by (simp only: get_embeddings_def Let_def mock_rag_env_fields mock_rag_env_batch) simp

section \<open>Totality of the knowledge-base search with the mock embeddings\<close>

lemma similarities_loop_returns:
  assumes "\<forall>d \<in> set des. length d = length qe" and "i + length des \<le> length KNOWLEDGE_BASE"
  shows "\<exists>sims. similarities_loop qe i des = Inr sims"
  using assms
proof (induction des arbitrary: i)
  case Nil
  then show ?case by simp
next
  case (Cons d des)
  from Cons.prems have "\<forall>d \<in> set des. length d = length qe" "Suc i + length des \<le> length KNOWLEDGE_BASE"
    by simp_all
  from Cons.IH [OF this] obtain rest where r: "similarities_loop qe (Suc i) des = Inr rest"
    by blast
  have "\<exists>s. cosine_similarity qe d = Inr s"
    using Cons.prems(1) by (simp add: cosine_similarity_def)
  then obtain s where c: "cosine_similarity qe d = Inr s" by blast
  have "\<not> length KNOWLEDGE_BASE \<le> i" using Cons.prems(2) by simp
  with r c show ?case by simp
qed

lemma search_returns_with_mock:
  assumes key: "rag_api_key env = None" and rnd: "\<forall>s n. random_stream env s n \<noteq> 1 / 2"
  shows "\<exists>resp calls'. search env q calls = (Inr resp, calls')"
proof (cases "rule_fat_arrow_specific q \<or> rule_double_bang q \<or> rule_fat_arrow_any q")
  case True
  from search_rule_hit [OF True] show ?thesis by blast
next
  case False
  define texts where "texts = q # map content KNOWLEDGE_BASE"
  define rs where "rs = random_stream env (mock_seed env texts)"
  have "\<forall>n. rs n \<noteq> 1 / 2" using rnd by (simp add: rs_def)
  from mock_loop_returns [OF this, of texts 0] obtain vs where vs: "mock_loop rs texts 0 = Inr vs"
    by blast
  from mock_loop_Inr [OF vs] have len: "length vs = 6" and dims: "\<forall>v \<in> set vs. length v = 1536"
    by (simp_all add: texts_def length_KNOWLEDGE_BASE)
  from len obtain qe des where v: "vs = qe # des" and ld: "length des = 5"
    by (cases vs) auto
  have g: "get_embeddings env texts ''dummy-api-key'' calls = (Inr (qe # des), calls @ [texts])"
    using vs by (simp add: get_embeddings_def rs_def v)
  have "\<forall>d \<in> set des. length d = length qe" using dims by (simp add: v)
  moreover have "0 + length des \<le> length KNOWLEDGE_BASE" by (simp add: ld length_KNOWLEDGE_BASE)
  ultimately obtain sims where l: "similarities_loop qe 0 des = Inr sims"
    using similarities_loop_returns by blast
  from similarities_loop_Inr [OF l] have "length sims = 5" by (simp add: ld)
  then have "length (sort_reverse (\<lambda>x. fst (snd x)) sims) = 5" by (simp add: length_sort_reverse)
  then obtain i s doc rest where h: "sort_reverse (\<lambda>x. fst (snd x)) sims = (i, s, doc) # rest"
    by (cases "sort_reverse (\<lambda>x. fst (snd x)) sims") auto
  have "embedding_search env q ''dummy-api-key'' calls = (Inr doc, calls @ [texts])"
    using g l h by (simp add: embedding_search_def texts_def [symmetric])
  with False key show ?thesis by (simp add: search_def)
qed

section \<open>Properties of the ranking and of the embedding calls\<close>




text \<open>
  C3, as the code has it. When no rule matches, the knowledge-base search calls
  \<open>get_embeddings\<close> exactly once, with the query followed by the contents of all the
  documents. The similarity service, when it returns a response, has called
  \<open>get_embedding\<close> once for each document, in order, and then once for the query,
  each time with a single text.
\<close>

theorem embed_calls_by_deployment:
  "(\<not> rule_fat_arrow_specific q \<and> \<not> rule_double_bang q \<and> \<not> rule_fat_arrow_any q
      \<longrightarrow> snd (search env q calls) = calls @ [q # map content KNOWLEDGE_BASE])
   \<and> (get_similarity senv docs query calls = (Inr resp, calls')
      \<longrightarrow> calls' = calls @ map (\<lambda>d. [d]) docs @ [[query]])"
proof (intro conjI impI)
  assume "\<not> rule_fat_arrow_specific q \<and> \<not> rule_double_bang q \<and> \<not> rule_fat_arrow_any q"
  then show "snd (search env q calls) = calls @ [q # map content KNOWLEDGE_BASE]"
    by (intro search_rule_miss_calls) simp_all
next
  assume "get_similarity senv docs query calls = (Inr resp, calls')"
  from get_similarity_Inr [OF this] obtain sims where
    "compute_similarities senv docs query calls = (Inr sims, calls')" by blast
  from compute_similarities_Inr [OF this]
  show "calls' = calls @ map (\<lambda>d. [d]) docs @ [[query]]" by simp
qed

theorem embed_calls_by_deployment_witness:
  "\<not> rule_fat_arrow_specific ''hello'' \<and> \<not> rule_double_bang ''hello'' \<and> \<not> rule_fat_arrow_any ''hello''
   \<and> snd (search compass_rag_env ''hello'' []) = [] @ [''hello'' # map content KNOWLEDGE_BASE]
   \<and> get_similarity compass_env [''east'', ''north'', ''west'', ''east again''] ''query'' [] =
     (Inr \<lparr>matches = [''east again'', ''east'', ''north'']\<rparr>,
      [[''east''], [''north''], [''west''], [''east again''], [''query'']])
   \<and> [[''east''], [''north''], [''west''], [''east again''], [''query'']] =
       [] @ map (\<lambda>d. [d]) [''east'', ''north'', ''west'', ''east again''] @ [[''query'']]"
  using embed_calls_by_deployment [of "''hello''" compass_rag_env "[]" compass_env
      "[''east'', ''north'', ''west'', ''east again'']" "''query''"
      "\<lparr>matches = [''east again'', ''east'', ''north'']\<rparr>"
      "[[''east''], [''north''], [''west''], [''east again''], [''query'']]"]
  by (simp add: compass_rag_env_miss compass_env_run)

text \<open>
  The claim as written, one call with the whole batch in every deployment, fails in
  the similarity service: two documents and a query make three calls.
\<close>

theorem adhoc_calls_counterexample:
  "snd (get_similarity compass_env [''east'', ''north''] ''query'' []) =
     [[''east''], [''north''], [''query'']]
   \<and> snd (get_similarity compass_env [''east'', ''north''] ''query'' []) \<noteq>
     [[''query'', ''east'', ''north'']]"
  by (simp add: get_similarity_def compass_env_def compass_def compute_similarities_def
      get_embedding_def sk_cosine_similarity_def replace_newlines_def)

section \<open>Properties of the knowledge-base search\<close>




text \<open>
  C4, as the code has it. With no key or the dummy key, \<open>get_embeddings\<close> seeds the
  generator once, from the hash of the string form of the whole list of texts. Every
  vector it returns has 1536 components and unit length, and there is one for each
  text; two batches with the same seed and the same number of texts get the same
  vectors, whatever their texts are; and it returns vectors whenever the generator
  never returns 1/2 (the only value that \<open>uniform(-1, 1)\<close> maps to zero).
\<close>

theorem mock_embeddings_per_batch:
  assumes "api_key = [] \<or> api_key = ''dummy-api-key''"
  shows "(fst (get_embeddings env texts api_key calls) = Inr vs
            \<longrightarrow> length vs = length texts
                \<and> (\<forall>v \<in> set vs. length v = 1536 \<and> sum_list (map (\<lambda>x. x\<^sup>2) v) = 1))
         \<and> (mock_seed env texts = mock_seed env texts' \<and> length texts = length texts'
            \<longrightarrow> fst (get_embeddings env texts api_key calls)
                = fst (get_embeddings env texts' api_key calls))
         \<and> ((\<forall>n. random_stream env (mock_seed env texts) n \<noteq> 1 / 2)
            \<longrightarrow> (\<exists>vs. fst (get_embeddings env texts api_key calls) = Inr vs))"
proof -
  have g: "fst (get_embeddings env ts api_key calls) =
             mock_loop (random_stream env (mock_seed env ts)) ts 0" for ts
    using assms by (auto simp: get_embeddings_def Let_def)
  show ?thesis
  proof (intro conjI impI)
    assume "fst (get_embeddings env texts api_key calls) = Inr vs"
    then have "mock_loop (random_stream env (mock_seed env texts)) texts 0 = Inr vs"
      by (simp add: g)
    from mock_loop_Inr [OF this]
    show "length vs = length texts"
      and "\<forall>v \<in> set vs. length v = 1536 \<and> sum_list (map (\<lambda>x. x\<^sup>2) v) = 1"
      by simp_all
  next
    assume "mock_seed env texts = mock_seed env texts' \<and> length texts = length texts'"
    then show "fst (get_embeddings env texts api_key calls)
                 = fst (get_embeddings env texts' api_key calls)"
      using mock_loop_ignores_texts [of texts texts'] by (simp add: g)
  next
    assume "\<forall>n. random_stream env (mock_seed env texts) n \<noteq> 1 / 2"
    from mock_loop_returns [OF this]
    show "\<exists>vs. fst (get_embeddings env texts api_key calls) = Inr vs"
      by (simp add: g)
  qed
qed

theorem mock_embeddings_per_batch_witness:
  "(''dummy-api-key'' = [] \<or> ''dummy-api-key'' = ''dummy-api-key'')
   \<and> fst (get_embeddings mock_rag_env [''a'', ''a''] ''dummy-api-key'' []) =
       Inr [replicate 1536 ((1 / 2) / sqrt 384), replicate 1536 ((- 1 / 2) / sqrt 384)]
   \<and> mock_seed mock_rag_env [''a'', ''a''] = mock_seed mock_rag_env [''b'', ''c'']
   \<and> length [''a'', ''a''] = length [''b'', ''c'']
   \<and> (\<forall>n. random_stream mock_rag_env (mock_seed mock_rag_env [''a'', ''a'']) n \<noteq> 1 / 2)
   \<and> fst (get_embeddings mock_rag_env [''a'', ''a''] ''dummy-api-key'' []) =
       fst (get_embeddings mock_rag_env [''b'', ''c''] ''dummy-api-key'' [])
   \<and> length (replicate 1536 ((1 / 2) / sqrt 384)) = 1536
   \<and> sum_list (map (\<lambda>x. x\<^sup>2) (replicate 1536 ((1 / 2) / sqrt 384))) = 1
   \<and> length (replicate 1536 ((- 1 / 2) / sqrt 384)) = 1536
   \<and> sum_list (map (\<lambda>x. x\<^sup>2) (replicate 1536 ((- 1 / 2) / sqrt 384))) = 1"
proof -
  have k: "''dummy-api-key'' = [] \<or> ''dummy-api-key'' = ''dummy-api-key''" by simp
  have s: "mock_seed mock_rag_env [''a'', ''a''] = mock_seed mock_rag_env [''b'', ''c'']"
    by (simp add: mock_seed_def mock_rag_env_fields str_list_def)
  have r: "\<forall>n. random_stream mock_rag_env (mock_seed mock_rag_env [''a'', ''a'']) n \<noteq> 1 / 2"
    by (simp add: mock_rag_env_fields)
  have l: "length [''a'', ''a''] = length [''b'', ''c'']" by simp
  note w = mock_embeddings_per_batch [OF k, of mock_rag_env "[''a'', ''a'']" "[]"
      "[replicate 1536 ((1 / 2) / sqrt 384), replicate 1536 ((- 1 / 2) / sqrt 384)]" "[''b'', ''c'']"]
  from w s l have e: "fst (get_embeddings mock_rag_env [''a'', ''a''] ''dummy-api-key'' []) =
       fst (get_embeddings mock_rag_env [''b'', ''c''] ''dummy-api-key'' [])"
    by blast
  from w mock_rag_env_run [of "''a''" "''a''" "[]"]
  have u: "\<forall>v \<in> set [replicate 1536 ((1 / 2) / sqrt 384), replicate 1536 ((- 1 / 2) / sqrt 384)].
         length v = 1536 \<and> sum_list (map (\<lambda>x. x\<^sup>2) v) = 1"
    by blast
  from u have u': "length (replicate 1536 ((1 / 2) / sqrt 384)) = 1536
      \<and> sum_list (map (\<lambda>x. x\<^sup>2) (replicate 1536 ((1 / 2) / sqrt 384))) = 1
      \<and> length (replicate 1536 ((- 1 / 2) / sqrt 384)) = 1536
      \<and> sum_list (map (\<lambda>x. x\<^sup>2) (replicate 1536 ((- 1 / 2) / sqrt 384))) = 1"
    by (simp only: list.set ball_simps insert_iff)
  from k mock_rag_env_run [of "''a''" "''a''" "[]"] s l r e u' show ?thesis
    by blast
qed

text \<open>
  The claim as written, a vector derived from the text's own content, fails: in the
  batch of the same text twice, the two vectors differ.
\<close>

theorem mock_batch_counterexample:
  "fst (get_embeddings mock_rag_env [''a'', ''a''] ''dummy-api-key'' []) =
     Inr [replicate 1536 ((1 / 2) / sqrt 384), replicate 1536 ((- 1 / 2) / sqrt 384)]
   \<and> replicate 1536 ((1 / 2) / sqrt 384) \<noteq> replicate 1536 ((- 1 / 2) / sqrt 384)"
proof -
  have "(1 / 2) / sqrt 384 \<noteq> (- 1 / 2) / sqrt 384" by simp
  then have "replicate 1536 ((1 / 2) / sqrt 384) \<noteq> replicate 1536 ((- 1 / 2) / sqrt 384)"
    by (simp only: replicate_eq_replicate) simp
  then show ?thesis
    by (simp only: get_embeddings_def Let_def mock_rag_env_fields mock_rag_env_batch) simp
qed



text \<open>
  C10. A response of \<open>search\<close> is one of the five documents of the knowledge base:
  its answer is the content and its sources the source of that same document. With
  the mock embeddings and a generator that never returns 1/2, \<open>search\<close> returns a
  response for every query.
\<close>

theorem search_answers_from_knowledge_base:
  "(search env q calls = (Inr resp, calls')
      \<longrightarrow> length KNOWLEDGE_BASE = 5
          \<and> (\<exists>doc \<in> set KNOWLEDGE_BASE. answer resp = content doc \<and> sources resp = Some (source doc)))
   \<and> (rag_api_key env = None \<and> (\<forall>s n. random_stream env s n \<noteq> 1 / 2)
      \<longrightarrow> (\<exists>resp calls'. search env q calls = (Inr resp, calls')))"
proof (intro conjI impI)
  assume "search env q calls = (Inr resp, calls')"
  from search_Inr [OF this]
  show "\<exists>doc \<in> set KNOWLEDGE_BASE. answer resp = content doc \<and> sources resp = Some (source doc)"
    by (auto simp: search_response_def)
next
  show "length KNOWLEDGE_BASE = 5" by (rule length_KNOWLEDGE_BASE)
next
  assume "rag_api_key env = None \<and> (\<forall>s n. random_stream env s n \<noteq> 1 / 2)"
  then show "\<exists>resp calls'. search env q calls = (Inr resp, calls')"
    by (intro search_returns_with_mock) simp_all
qed

theorem search_answers_from_knowledge_base_witness:
  "search compass_rag_env ''hello'' [] =
     (Inr (search_response (KNOWLEDGE_BASE ! 0)), [''hello'' # map content KNOWLEDGE_BASE])
   \<and> (\<exists>doc \<in> set KNOWLEDGE_BASE.
         answer (search_response (KNOWLEDGE_BASE ! 0)) = content doc
         \<and> sources (search_response (KNOWLEDGE_BASE ! 0)) = Some (source doc))
   \<and> rag_api_key mock_rag_env = None
   \<and> (\<forall>s n. random_stream mock_rag_env s n \<noteq> 1 / 2)
   \<and> (\<exists>resp calls'. search mock_rag_env ''hello'' [] = (Inr resp, calls'))"
proof -
  have r: "\<forall>s n. random_stream mock_rag_env s n \<noteq> 1 / 2"
    by (simp add: mock_rag_env_fields)
  note w1 = search_answers_from_knowledge_base [of compass_rag_env "''hello''" "[]"
      "search_response (KNOWLEDGE_BASE ! 0)" "[''hello'' # map content KNOWLEDGE_BASE]"]
  note w2 = search_answers_from_knowledge_base [of mock_rag_env "''hello''" "[]"]
  from w1 w2 compass_rag_env_run mock_rag_env_fields(1) r show ?thesis
    by blast
qed

end
